theory Spec2Isabelle
  imports Complex_Main
begin

section \<open>Python values, exceptions and optional arguments\<close>

text \<open>
  The values the descriptor stores or passes on without looking at them. Numbers
  (Python ints and floats other than NaN) are modelled by their real value: the only
  arithmetic the descriptor itself performs on them is the comparison \<open>>\<close>.
\<close>

datatype pyval =
    PyNone
  | PyBool bool
  | PyInt int
  | PyFloat real
  | PyStr string
  | PySeq "pyval list"

text \<open>
  The exceptions a call can end with. \<open>EngineError\<close> stands for whatever the wrapped
  engine raises when it refuses an argument.
\<close>

datatype error =
    ValueError string
  | IndexError
  | AttributeError
  | EngineError string

text \<open>
  A parameter with a default: the caller either leaves it out or passes a value
  (which may be \<open>None\<close>).
\<close>

datatype 'a argument = Omitted | Given 'a

fun bind_default :: "'a \<Rightarrow> 'a argument \<Rightarrow> 'a" where
  "bind_default d Omitted = d"
| "bind_default d (Given a) = a"

text \<open>Indexing a sequence at a non-negative literal index: \<open>IndexError\<close> out of range.\<close>

definition getitem :: "'a list \<Rightarrow> nat \<Rightarrow> error + 'a" where
  "getitem xs i = (if i < length xs then Inr (xs ! i) else Inl IndexError)"

section \<open>The numeric array and the engine-native matrix\<close>

text \<open>
  A two-dimensional numeric array is a list of rows. \<open>ravel\<close> flattens it in row-major
  order; \<open>reshape_4x4\<close> reads sixteen cells back as four rows of four.
  \<open>np_empty_4x4 junk\<close> is the flat buffer of \<open>np.empty((4, 4))\<close>: sixteen cells whose
  contents (\<open>junk\<close>) are unspecified.
\<close>

definition ravel :: "real list list \<Rightarrow> real list" where
  "ravel matrix = concat matrix"

definition reshape_4x4 :: "real list \<Rightarrow> real list list" where
  "reshape_4x4 xs = [take 4 xs, take 4 (drop 4 xs), take 4 (drop 8 xs), take 4 (drop 12 xs)]"

definition np_empty_4x4 :: "(nat \<Rightarrow> real) \<Rightarrow> real list" where
  "np_empty_4x4 junk = map junk [0..<16]"

definition identity_4x4 :: "real list list" where
  "identity_4x4 = [[1, 0, 0, 0], [0, 1, 0, 0], [0, 0, 1, 0], [0, 0, 0, 1]]"

text \<open>
  Modelled from the spec: the engine-native 4x4 matrix object (\<open>vtkMatrix4x4\<close>, a class of
  the wrapped toolkit, not of this repository). It holds sixteen numbers in row-major
  order; a new one is the identity. \<open>DeepCopy\<close> (the method taking a flat array) replaces
  all sixteen elements and refuses an array of any other length; \<open>DeepCopy_to\<close> (the
  static form taking a destination buffer and a source matrix) overwrites the leading
  cells of the buffer with the elements of the source.
\<close>

datatype vtkMatrix4x4 = VtkMatrix4x4 (elements: "real list")

definition vtkMatrix4x4_new :: vtkMatrix4x4 where
  "vtkMatrix4x4_new = VtkMatrix4x4 (ravel identity_4x4)"

definition DeepCopy :: "real list \<Rightarrow> vtkMatrix4x4 \<Rightarrow> error + vtkMatrix4x4" where
  "DeepCopy xs m =
     (if length xs = 16 then Inr (VtkMatrix4x4 xs) else Inl (EngineError ''TypeError''))"

definition DeepCopy_to :: "real list \<Rightarrow> vtkMatrix4x4 \<Rightarrow> real list" where
  "DeepCopy_to dst src = elements src @ drop (length (elements src)) dst"

section \<open>The wrapped engine\<close>

text \<open>
  The descriptor inherits from the toolkit's camera, which is not part of this
  repository: its methods are a parameter of the model. \<open>'e\<close> is the engine's own state.
  A method that reads returns a value; a method that writes returns the new engine state,
  or the exception it raised (leaving the engine as it was).
\<close>

record 'e engine =
  GetPosition :: "'e \<Rightarrow> real list"
  SetPosition :: "real list \<Rightarrow> 'e \<Rightarrow> error + 'e"
  GetFocalPoint :: "'e \<Rightarrow> real list"
  SetFocalPoint :: "real list \<Rightarrow> 'e \<Rightarrow> error + 'e"
  GetModelTransformMatrix :: "'e \<Rightarrow> vtkMatrix4x4"
  SetModelTransformMatrix :: "vtkMatrix4x4 \<Rightarrow> 'e \<Rightarrow> error + 'e"
  GetDistance :: "'e \<Rightarrow> real"
  GetThickness :: "'e \<Rightarrow> real"
  SetThickness :: "real \<Rightarrow> 'e \<Rightarrow> error + 'e"
  GetParallelScale :: "'e \<Rightarrow> real"
  SetParallelScale :: "real \<Rightarrow> 'e \<Rightarrow> error + 'e"
  Zoom :: "real \<Rightarrow> 'e \<Rightarrow> error + 'e"
  GetViewUp :: "'e \<Rightarrow> real list"
  SetViewUp :: "real list \<Rightarrow> 'e \<Rightarrow> error + 'e"
  SetParallelProjection :: "pyval \<Rightarrow> 'e \<Rightarrow> error + 'e"
  GetClippingRange :: "'e \<Rightarrow> real \<times> real"
  SetClippingRange :: "real \<Rightarrow> real \<Rightarrow> 'e \<Rightarrow> error + 'e"
  RemoveAllObservers :: "'e \<Rightarrow> error + 'e"

section \<open>The camera descriptor\<close>

text \<open>
  The attribute \<open>parent\<close> is assigned by the owner of the camera, never by the
  constructor: it is unset, \<open>None\<close>, or a reference to an object.
\<close>

datatype reference = Unset | NoneRef | ObjRef nat

text \<open>
  A \<open>Camera\<close> object: the inherited engine part (\<open>vtk\<close>) and the attributes the class
  itself assigns (\<open>self._position\<close>, \<open>self._focus\<close>, \<open>self._is_parallel_projection\<close>,
  \<open>self.parent\<close>).
\<close>

record 'e camera =
  vtk :: 'e
  self_position :: "real list"
  self_focus :: "real list"
  self_is_parallel_projection :: pyval
  self_parent :: reference

text \<open>
  A method call ends with an exception or a return value, and leaves a camera state
  behind in both cases.
\<close>

type_synonym ('r, 'e) outcome = "(error + 'r) \<times> 'e camera"

text \<open>\<open>__init__\<close>, on the freshly created engine state \<open>e\<close>.\<close>

definition Camera_init :: "'e engine \<Rightarrow> 'e \<Rightarrow> 'e camera" where
  "Camera_init eng e =
     \<lparr>vtk = e,
      self_position = GetPosition eng e,
      self_focus = GetFocalPoint eng e,
      self_is_parallel_projection = PyBool False,
      self_parent = Unset\<rparr>"

definition position :: "'e camera \<Rightarrow> real list" where
  "position self = self_position self"

definition position_setter :: "'e engine \<Rightarrow> real list \<Rightarrow> 'e camera \<Rightarrow> (unit, 'e) outcome" where
  "position_setter eng v self =
     (case SetPosition eng v (vtk self) of
        Inl err \<Rightarrow> (Inl err, self)
      | Inr e1 \<Rightarrow> (Inr (), self\<lparr>vtk := e1, self_position := GetPosition eng e1\<rparr>))"

definition focal_point :: "'e camera \<Rightarrow> real list" where
  "focal_point self = self_focus self"

definition focal_point_setter :: "'e engine \<Rightarrow> real list \<Rightarrow> 'e camera \<Rightarrow> (unit, 'e) outcome" where
  "focal_point_setter eng point self =
     (case SetFocalPoint eng point (vtk self) of
        Inl err \<Rightarrow> (Inl err, self)
      | Inr e1 \<Rightarrow> (Inr (), self\<lparr>vtk := e1, self_focus := GetFocalPoint eng e1\<rparr>))"

definition model_transform_matrix :: "'e engine \<Rightarrow> (nat \<Rightarrow> real) \<Rightarrow> 'e camera \<Rightarrow> real list list" where
  "model_transform_matrix eng junk self =
     (let vtk_matrix = GetModelTransformMatrix eng (vtk self);
          matrix = np_empty_4x4 junk
      in reshape_4x4 (DeepCopy_to matrix vtk_matrix))"

definition model_transform_matrix_setter ::
  "'e engine \<Rightarrow> real list list \<Rightarrow> 'e camera \<Rightarrow> (unit, 'e) outcome" where
  "model_transform_matrix_setter eng matrix self =
     (case DeepCopy (ravel matrix) vtkMatrix4x4_new of
        Inl err \<Rightarrow> (Inl err, self)
      | Inr vtk_matrix \<Rightarrow>
          (case SetModelTransformMatrix eng vtk_matrix (vtk self) of
             Inl err \<Rightarrow> (Inl err, self)
           | Inr e1 \<Rightarrow> (Inr (), self\<lparr>vtk := e1\<rparr>)))"

definition is_parallel_projection :: "'e camera \<Rightarrow> pyval" where
  "is_parallel_projection self = self_is_parallel_projection self"

text \<open>
  \<open>is_parallel_projection\<close> and \<open>distance\<close> are declared with \<open>@property\<close> and no setter:
  assigning to them raises \<open>AttributeError\<close> and changes nothing.
\<close>

definition is_parallel_projection_assign :: "pyval \<Rightarrow> 'e camera \<Rightarrow> (unit, 'e) outcome" where
  "is_parallel_projection_assign v self = (Inl AttributeError, self)"

definition distance :: "'e engine \<Rightarrow> 'e camera \<Rightarrow> real" where
  "distance eng self = GetDistance eng (vtk self)"

definition distance_assign :: "pyval \<Rightarrow> 'e camera \<Rightarrow> (unit, 'e) outcome" where
  "distance_assign v self = (Inl AttributeError, self)"

definition thickness :: "'e engine \<Rightarrow> 'e camera \<Rightarrow> real" where
  "thickness eng self = GetThickness eng (vtk self)"

definition thickness_setter :: "'e engine \<Rightarrow> real \<Rightarrow> 'e camera \<Rightarrow> (unit, 'e) outcome" where
  "thickness_setter eng length' self =
     (case SetThickness eng length' (vtk self) of
        Inl err \<Rightarrow> (Inl err, self)
      | Inr e1 \<Rightarrow> (Inr (), self\<lparr>vtk := e1\<rparr>))"

definition parallel_scale :: "'e engine \<Rightarrow> 'e camera \<Rightarrow> real" where
  "parallel_scale eng self = GetParallelScale eng (vtk self)"

definition parallel_scale_setter :: "'e engine \<Rightarrow> real \<Rightarrow> 'e camera \<Rightarrow> (unit, 'e) outcome" where
  "parallel_scale_setter eng scale self =
     (case SetParallelScale eng scale (vtk self) of
        Inl err \<Rightarrow> (Inl err, self)
      | Inr e1 \<Rightarrow> (Inr (), self\<lparr>vtk := e1\<rparr>))"

definition zoom :: "'e engine \<Rightarrow> real \<Rightarrow> 'e camera \<Rightarrow> (unit, 'e) outcome" where
  "zoom eng v self =
     (case Zoom eng v (vtk self) of
        Inl err \<Rightarrow> (Inl err, self)
      | Inr e1 \<Rightarrow> (Inr (), self\<lparr>vtk := e1\<rparr>))"

text \<open>
  \<open>up(self, vector=None)\<close>. The result is \<open>Some\<close> vector when the method returns one and
  \<open>None\<close> when it falls off its end.
\<close>

definition up ::
  "'e engine \<Rightarrow> real list option argument \<Rightarrow> 'e camera \<Rightarrow> (real list option, 'e) outcome" where
  "up eng arg self =
     (case bind_default None arg of
        None \<Rightarrow> (Inr (Some (GetViewUp eng (vtk self))), self)
      | Some vector \<Rightarrow>
          (case SetViewUp eng vector (vtk self) of
             Inl err \<Rightarrow> (Inl err, self)
           | Inr e1 \<Rightarrow> (Inr None, self\<lparr>vtk := e1\<rparr>)))"

text \<open>
  \<open>enable_parallel_projection(self, flag=True)\<close>: the attribute is assigned before the
  engine is called, so it keeps the new value when the engine raises.
\<close>

definition enable_parallel_projection ::
  "'e engine \<Rightarrow> pyval argument \<Rightarrow> 'e camera \<Rightarrow> (unit, 'e) outcome" where
  "enable_parallel_projection eng arg self =
     (let flag = bind_default (PyBool True) arg;
          self1 = self\<lparr>self_is_parallel_projection := flag\<rparr>
      in case SetParallelProjection eng flag (vtk self1) of
           Inl err \<Rightarrow> (Inl err, self1)
         | Inr e1 \<Rightarrow> (Inr (), self1\<lparr>vtk := e1\<rparr>))"

definition disable_parallel_projection :: "'e engine \<Rightarrow> 'e camera \<Rightarrow> (unit, 'e) outcome" where
  "disable_parallel_projection eng self =
     enable_parallel_projection eng (Given (PyBool False)) self"

definition clipping_range :: "'e engine \<Rightarrow> 'e camera \<Rightarrow> real \<times> real" where
  "clipping_range eng self = GetClippingRange eng (vtk self)"

definition clipping_range_setter :: "'e engine \<Rightarrow> real list \<Rightarrow> 'e camera \<Rightarrow> (unit, 'e) outcome" where
  "clipping_range_setter eng points self =
     (case getitem points 0 of
        Inl err \<Rightarrow> (Inl err, self)
      | Inr p0 \<Rightarrow>
          (case getitem points 1 of
             Inl err \<Rightarrow> (Inl err, self)
           | Inr p1 \<Rightarrow>
               if p0 > p1
               then (Inl (ValueError ''Near point should lower than far point.''), self)
               else (case SetClippingRange eng p0 p1 (vtk self) of
                       Inl err \<Rightarrow> (Inl err, self)
                     | Inr e1 \<Rightarrow> (Inr (), self\<lparr>vtk := e1\<rparr>))))"

text \<open>\<open>__del__\<close>.\<close>

definition Camera_del :: "'e engine \<Rightarrow> 'e camera \<Rightarrow> (unit, 'e) outcome" where
  "Camera_del eng self =
     (case RemoveAllObservers eng (vtk self) of
        Inl err \<Rightarrow> (Inl err, self)
      | Inr e1 \<Rightarrow> (Inr (), self\<lparr>vtk := e1, self_parent := NoneRef\<rparr>))"

section \<open>Sequences of calls\<close>

text \<open>
  What a caller can do to a live descriptor that may change it: assign to a property
  that has a setter, call one of the methods, or call a method of the engine directly
  (the class inherits them all). Reading a property changes nothing and is left out.
\<close>

datatype 'e operation =
    Assign_position "real list"
  | Assign_focal_point "real list"
  | Assign_model_transform_matrix "real list list"
  | Assign_thickness real
  | Assign_parallel_scale real
  | Call_zoom real
  | Call_up "real list option argument"
  | Call_enable_parallel_projection "pyval argument"
  | Call_disable_parallel_projection
  | Assign_clipping_range "real list"
  | Inherited "'e \<Rightarrow> 'e"

text \<open>The state a call leaves behind, whether it returned or raised.\<close>

fun exec :: "'e engine \<Rightarrow> 'e operation \<Rightarrow> 'e camera \<Rightarrow> 'e camera" where
  "exec eng (Assign_position v) self = snd (position_setter eng v self)"
| "exec eng (Assign_focal_point v) self = snd (focal_point_setter eng v self)"
| "exec eng (Assign_model_transform_matrix m) self = snd (model_transform_matrix_setter eng m self)"
| "exec eng (Assign_thickness x) self = snd (thickness_setter eng x self)"
| "exec eng (Assign_parallel_scale x) self = snd (parallel_scale_setter eng x self)"
| "exec eng (Call_zoom x) self = snd (zoom eng x self)"
| "exec eng (Call_up arg) self = snd (up eng arg self)"
| "exec eng (Call_enable_parallel_projection arg) self = snd (enable_parallel_projection eng arg self)"
| "exec eng Call_disable_parallel_projection self = snd (disable_parallel_projection eng self)"
| "exec eng (Assign_clipping_range points) self = snd (clipping_range_setter eng points self)"
| "exec eng (Inherited f) self = self\<lparr>vtk := f (vtk self)\<rparr>"

fun run :: "'e engine \<Rightarrow> 'e operation list \<Rightarrow> 'e camera \<Rightarrow> 'e camera" where
  "run eng [] self = self"
| "run eng (a # as) self = run eng as (exec eng a self)"

text \<open>
  The calls of a run, each with the engine state it started from.
\<close>

fun history :: "'e engine \<Rightarrow> 'e operation list \<Rightarrow> 'e camera \<Rightarrow> ('e operation \<times> 'e) list" where
  "history eng [] self = []"
| "history eng (a # as) self = (a, vtk self) # history eng as (exec eng a self)"

text \<open>
  The value read back from the engine by a call of the history: a position setter reads
  the engine's position right after the engine has taken the new one (a call the
  engine refuses reads nothing back), and likewise for the focal point. No other call
  reads either.
\<close>

fun position_read_back :: "'e engine \<Rightarrow> 'e operation \<times> 'e \<Rightarrow> real list option" where
  "position_read_back eng (Assign_position v, e) =
     (case SetPosition eng v e of Inl err \<Rightarrow> None | Inr e1 \<Rightarrow> Some (GetPosition eng e1))"
| "position_read_back eng (a, e) = None"

fun focal_point_read_back :: "'e engine \<Rightarrow> 'e operation \<times> 'e \<Rightarrow> real list option" where
  "focal_point_read_back eng (Assign_focal_point v, e) =
     (case SetFocalPoint eng v e of Inl err \<Rightarrow> None | Inr e1 \<Rightarrow> Some (GetFocalPoint eng e1))"
| "focal_point_read_back eng (a, e) = None"

text \<open>The flag a call hands to the enable/disable operations, if it is one of them.\<close>

fun flag_set :: "'e operation \<Rightarrow> pyval option" where
  "flag_set (Call_enable_parallel_projection arg) = Some (bind_default (PyBool True) arg)"
| "flag_set Call_disable_parallel_projection = Some (PyBool False)"
| "flag_set a = None"

section \<open>A reference engine\<close>

text \<open>
  Modelled from the spec: the Euclidean distance between two points given by their
  coordinates, which is what the engine reports as the position-to-focal-point distance.
\<close>

definition euclidean_distance :: "real list \<Rightarrow> real list \<Rightarrow> real" where
  "euclidean_distance p q = sqrt (sum_list (map2 (\<lambda>a b. (a - b)\<^sup>2) p q))"

text \<open>
  Modelled from the spec: an engine that performs no internal transformation. It keeps
  each quantity as it was given, refuses a vector that does not have three coordinates
  and a projection flag that is neither a boolean nor an integer, and starts from the
  toolkit's defaults. It instantiates the engine parameter at concrete inputs.
\<close>

record vtk_camera =
  Position :: "real list"
  FocalPoint :: "real list"
  ModelTransformMatrix :: vtkMatrix4x4
  Thickness :: real
  ParallelScale :: real
  ViewAngle :: real
  ViewUp :: "real list"
  ParallelProjection :: bool
  ClippingRange :: "real \<times> real"
  Observers :: "nat list"

definition set_vector ::
  "(real list \<Rightarrow> vtk_camera \<Rightarrow> vtk_camera) \<Rightarrow> real list \<Rightarrow> vtk_camera \<Rightarrow> error + vtk_camera" where
  "set_vector store v e = (if length v = 3 then Inr (store v e) else Inl (EngineError ''TypeError''))"

definition set_flag :: "pyval \<Rightarrow> vtk_camera \<Rightarrow> error + vtk_camera" where
  "set_flag flag e =
     (case flag of
        PyBool b \<Rightarrow> Inr (e\<lparr>ParallelProjection := b\<rparr>)
      | PyInt i \<Rightarrow> Inr (e\<lparr>ParallelProjection := (i \<noteq> 0)\<rparr>)
      | _ \<Rightarrow> Inl (EngineError ''TypeError''))"

definition reference_engine :: "vtk_camera engine" where
  "reference_engine =
     \<lparr>GetPosition = Position,
      SetPosition = set_vector (\<lambda>v e. e\<lparr>Position := v\<rparr>),
      GetFocalPoint = FocalPoint,
      SetFocalPoint = set_vector (\<lambda>v e. e\<lparr>FocalPoint := v\<rparr>),
      GetModelTransformMatrix = ModelTransformMatrix,
      SetModelTransformMatrix = (\<lambda>m e. Inr (e\<lparr>ModelTransformMatrix := m\<rparr>)),
      GetDistance = (\<lambda>e. euclidean_distance (Position e) (FocalPoint e)),
      GetThickness = Thickness,
      SetThickness = (\<lambda>x e. Inr (e\<lparr>Thickness := x\<rparr>)),
      GetParallelScale = ParallelScale,
      SetParallelScale = (\<lambda>x e. Inr (e\<lparr>ParallelScale := x\<rparr>)),
      Zoom = (\<lambda>x e. Inr (e\<lparr>ViewAngle := ViewAngle e / x\<rparr>)),
      GetViewUp = ViewUp,
      SetViewUp = set_vector (\<lambda>v e. e\<lparr>ViewUp := v\<rparr>),
      SetParallelProjection = set_flag,
      GetClippingRange = ClippingRange,
      SetClippingRange = (\<lambda>near far e. Inr (e\<lparr>ClippingRange := (near, far)\<rparr>)),
      RemoveAllObservers = (\<lambda>e. Inr (e\<lparr>Observers := []\<rparr>))\<rparr>"

definition fresh_engine :: vtk_camera where
  "fresh_engine =
     \<lparr>Position = [0, 0, 1],
      FocalPoint = [0, 0, 0],
      ModelTransformMatrix = vtkMatrix4x4_new,
      Thickness = 1000,
      ParallelScale = 1,
      ViewAngle = 30,
      ViewUp = [0, 1, 0],
      ParallelProjection = False,
      ClippingRange = (1 / 100, 100001 / 100),
      Observers = []\<rparr>"

definition fresh_camera :: "vtk_camera camera" where
  "fresh_camera = Camera_init reference_engine fresh_engine"

text \<open>
  Modelled from the spec: a freshly built descriptor that an owner (object 1) has taken
  and on which two observers (7 and 9) are registered.
\<close>

definition owned_camera :: "vtk_camera camera" where
  "owned_camera = fresh_camera\<lparr>vtk := fresh_engine\<lparr>Observers := [7, 9]\<rparr>, self_parent := ObjRef 1\<rparr>"

text \<open>
  Modelled from the spec: an engine that clamps (``any internal clamping/rounding the
  engine performs''). It is the reference engine, except that it replaces a negative
  coordinate of a position or focal point by 0 before storing it.
\<close>

definition clamping_engine :: "vtk_camera engine" where
  "clamping_engine =
     reference_engine
       \<lparr>SetPosition := set_vector (\<lambda>v e. e\<lparr>Position := map (max 0) v\<rparr>),
        SetFocalPoint := set_vector (\<lambda>v e. e\<lparr>FocalPoint := map (max 0) v\<rparr>)\<rparr>"

text \<open>
  Modelled from the spec: an engine with engine-side normalization of the view-up vector
  (the re-read after a write exists ``to capture engine-side normalization''). It is the
  reference engine, except that \<open>SetViewUp\<close> scales the vector to unit length before
  storing it, and stores (0, 1, 0) for the zero vector, as the toolkit's camera does.
\<close>

definition normalize :: "real list \<Rightarrow> real list" where
  "normalize v =
     (let norm = sqrt (sum_list (map (\<lambda>x. x\<^sup>2) v))
      in if norm = 0 then [0, 1, 0] else map (\<lambda>x. x / norm) v)"

definition normalising_engine :: "vtk_camera engine" where
  "normalising_engine =
     reference_engine\<lparr>SetViewUp := set_vector (\<lambda>v e. e\<lparr>ViewUp := normalize v\<rparr>)\<rparr>"

section \<open>Facts about the reference engine\<close>

lemma vtk_fresh_camera: "vtk fresh_camera = fresh_engine"
  by (simp add: fresh_camera_def Camera_init_def)

lemma reference_SetClippingRange:
  "SetClippingRange reference_engine near far e = Inr (e\<lparr>ClippingRange := (near, far)\<rparr>)"
  by (simp add: reference_engine_def)

lemma reference_GetClippingRange: "GetClippingRange reference_engine e = ClippingRange e"
  by (simp add: reference_engine_def)

lemma clamping_SetPosition:
  "SetPosition clamping_engine v e =
     (if length v = 3 then Inr (e\<lparr>Position := map (max 0) v\<rparr>)
      else Inl (EngineError ''TypeError''))"
  by (simp add: clamping_engine_def reference_engine_def set_vector_def)

lemma clamping_SetFocalPoint:
  "SetFocalPoint clamping_engine v e =
     (if length v = 3 then Inr (e\<lparr>FocalPoint := map (max 0) v\<rparr>)
      else Inl (EngineError ''TypeError''))"
  by (simp add: clamping_engine_def reference_engine_def set_vector_def)

lemma clamping_GetPosition: "GetPosition clamping_engine e = Position e"
  by (simp add: clamping_engine_def reference_engine_def)

lemma clamping_GetFocalPoint: "GetFocalPoint clamping_engine e = FocalPoint e"
  by (simp add: clamping_engine_def reference_engine_def)

lemma reference_vectors:
  "GetPosition reference_engine e = Position e"
  "GetFocalPoint reference_engine e = FocalPoint e"
  "SetPosition reference_engine v e =
     (if length v = 3 then Inr (e\<lparr>Position := v\<rparr>) else Inl (EngineError ''TypeError''))"
  "SetFocalPoint reference_engine v e =
     (if length v = 3 then Inr (e\<lparr>FocalPoint := v\<rparr>) else Inl (EngineError ''TypeError''))"
  "GetDistance reference_engine e = euclidean_distance (Position e) (FocalPoint e)"
  by (simp_all add: reference_engine_def set_vector_def)

lemma reference_ViewUp:
  "GetViewUp reference_engine e = ViewUp e"
  "SetViewUp reference_engine v e =
     (if length v = 3 then Inr (e\<lparr>ViewUp := v\<rparr>) else Inl (EngineError ''TypeError''))"
  by (simp_all add: reference_engine_def set_vector_def)

lemma normalising_ViewUp:
  "GetViewUp normalising_engine e = ViewUp e"
  "SetViewUp normalising_engine v e =
     (if length v = 3 then Inr (e\<lparr>ViewUp := normalize v\<rparr>)
      else Inl (EngineError ''TypeError''))"
  by (simp_all add: normalising_engine_def reference_engine_def set_vector_def)

lemma normalize_002: "normalize [0, 0, 2] = [0, 0, 1]"
  by (simp add: normalize_def)

lemma reference_matrix:
  "GetModelTransformMatrix reference_engine e = ModelTransformMatrix e"
  "SetModelTransformMatrix reference_engine m e = Inr (e\<lparr>ModelTransformMatrix := m\<rparr>)"
  by (simp_all add: reference_engine_def)

lemma reference_RemoveAllObservers:
  "RemoveAllObservers reference_engine e = Inr (e\<lparr>Observers := []\<rparr>)"
  by (simp add: reference_engine_def)

section \<open>The clipping-range setter\<close>

lemma clipping_range_setter_short:
  "length points < 2 \<Longrightarrow> clipping_range_setter eng points self = (Inl IndexError, self)"
proof (cases points)
  case Nil
  then show ?thesis by (simp add: clipping_range_setter_def getitem_def)
next
  case (Cons a rest)
  assume "length points < 2"
  with Cons have "rest = []" by simp
  with Cons show ?thesis by (simp add: clipping_range_setter_def getitem_def)
qed

lemma clipping_range_setter_two:
  "clipping_range_setter eng (near # far # rest) self =
     (if near > far
      then (Inl (ValueError ''Near point should lower than far point.''), self)
      else (case SetClippingRange eng near far (vtk self) of
              Inl err \<Rightarrow> (Inl err, self)
            | Inr e1 \<Rightarrow> (Inr (), self\<lparr>vtk := e1\<rparr>)))"
  by (simp add: clipping_range_setter_def getitem_def)

text \<open>
  C1. Assigning the pair (near, far) to \<open>clipping_range\<close>: when near > far the setter
  raises the \<open>ValueError\<close> about the near/far order and leaves the whole object, engine
  part included, as it was, so the clipping range read afterwards is the prior one; when
  near <= far and the engine takes the call, the setter returns, the engine part is the
  result of \<open>SetClippingRange near far\<close> and nothing else has changed, and the clipping
  range read afterwards is the engine's, which is (near, far) for an engine that reports
  the bounds as they were stored.
\<close>

theorem clipping_range_setter_validates:
  "(near > far \<longrightarrow>
      clipping_range_setter eng [near, far] self =
        (Inl (ValueError ''Near point should lower than far point.''), self)
      \<and> clipping_range eng (snd (clipping_range_setter eng [near, far] self)) =
          clipping_range eng self)
   \<and> (near \<le> far \<longrightarrow> SetClippingRange eng near far (vtk self) = Inr e1 \<longrightarrow>
        clipping_range_setter eng [near, far] self = (Inr (), self\<lparr>vtk := e1\<rparr>)
        \<and> clipping_range eng (snd (clipping_range_setter eng [near, far] self)) =
            GetClippingRange eng e1
        \<and> (GetClippingRange eng e1 = (near, far) \<longrightarrow>
             clipping_range eng (snd (clipping_range_setter eng [near, far] self)) = (near, far)))"
  by (simp add: clipping_range_setter_two clipping_range_def)

theorem clipping_range_setter_validates_witness:
  "clipping_range_setter reference_engine [2, 1] fresh_camera =
     (Inl (ValueError ''Near point should lower than far point.''), fresh_camera)
   \<and> clipping_range reference_engine (snd (clipping_range_setter reference_engine [2, 1] fresh_camera)) =
       clipping_range reference_engine fresh_camera
   \<and> clipping_range_setter reference_engine [1, 2] fresh_camera =
       (Inr (), fresh_camera\<lparr>vtk := fresh_engine\<lparr>ClippingRange := (1, 2)\<rparr>\<rparr>)
   \<and> clipping_range reference_engine (snd (clipping_range_setter reference_engine [1, 2] fresh_camera)) =
       (1, 2)"
  using clipping_range_setter_validates
          [where near = 2 and far = 1 and eng = reference_engine and self = fresh_camera]
        clipping_range_setter_validates
          [where near = 1 and far = 2 and eng = reference_engine and self = fresh_camera
             and ?e1.0 = "fresh_engine\<lparr>ClippingRange := (1, 2)\<rparr>"]
  by (simp add: reference_SetClippingRange reference_GetClippingRange vtk_fresh_camera
        clipping_range_def)

text \<open>
  C10. The setter indexes its argument at 0 and 1 with no guard: on a sequence of fewer
  than two elements it raises \<open>IndexError\<close> (not the \<open>ValueError\<close>) and leaves the
  object, engine part included, as it was; on a sequence of more than two elements it
  compares and forwards the first two only, exactly as on the pair of them.
\<close>

theorem clipping_range_setter_indexing:
  "(length points < 2 \<longrightarrow> clipping_range_setter eng points self = (Inl IndexError, self))
   \<and> clipping_range_setter eng (near # far # rest) self =
       (if near > far
        then (Inl (ValueError ''Near point should lower than far point.''), self)
        else (case SetClippingRange eng near far (vtk self) of
                Inl err \<Rightarrow> (Inl err, self)
              | Inr e1 \<Rightarrow> (Inr (), self\<lparr>vtk := e1\<rparr>)))
   \<and> clipping_range_setter eng (near # far # rest) self =
       clipping_range_setter eng [near, far] self"
  using clipping_range_setter_short [of points eng self]
  by (simp add: clipping_range_setter_two)

theorem clipping_range_setter_indexing_witness:
  "clipping_range_setter reference_engine [5] fresh_camera = (Inl IndexError, fresh_camera)
   \<and> clipping_range_setter reference_engine [] fresh_camera = (Inl IndexError, fresh_camera)
   \<and> clipping_range_setter reference_engine [1, 2, 0] fresh_camera =
       (Inr (), fresh_camera\<lparr>vtk := fresh_engine\<lparr>ClippingRange := (1, 2)\<rparr>\<rparr>)
   \<and> clipping_range_setter reference_engine [2, 1, 3] fresh_camera =
       (Inl (ValueError ''Near point should lower than far point.''), fresh_camera)"
  using clipping_range_setter_indexing [of "[5]" reference_engine fresh_camera 1 2 "[0]"]
    clipping_range_setter_indexing [of "[]" reference_engine fresh_camera 2 1 "[3]"]
  by (simp add: reference_SetClippingRange vtk_fresh_camera)

section \<open>The cached position and focal point\<close>

lemma position_setter_accepted:
  "SetPosition eng v (vtk self) = Inr e1 \<Longrightarrow>
     position_setter eng v self =
       (Inr (), self\<lparr>vtk := e1, self_position := GetPosition eng e1\<rparr>)"
  by (simp add: position_setter_def)

lemma focal_point_setter_accepted:
  "SetFocalPoint eng v (vtk self) = Inr e1 \<Longrightarrow>
     focal_point_setter eng v self =
       (Inr (), self\<lparr>vtk := e1, self_focus := GetFocalPoint eng e1\<rparr>)"
  by (simp add: focal_point_setter_def)

text \<open>
  C2. When the engine takes the vector v, assigning it to \<open>position\<close> hands v to
  \<open>SetPosition\<close>, then stores what \<open>GetPosition\<close> returns on the new engine state: the
  next read of \<open>position\<close> is that value (the engine's own rendering of v, whatever v
  was), it is the same whatever happens to the engine afterwards, and, when writing
  that value back leaves the engine's rendering as it is, a second round trip returns
  it again. The same holds for \<open>focal_point\<close>.
\<close>

theorem position_setter_round_trip:
  "(SetPosition eng v (vtk self) = Inr e1 \<longrightarrow>
      position_setter eng v self =
        (Inr (), self\<lparr>vtk := e1, self_position := GetPosition eng e1\<rparr>)
      \<and> position (snd (position_setter eng v self)) = GetPosition eng e1
      \<and> (\<forall>e. position ((snd (position_setter eng v self))\<lparr>vtk := e\<rparr>) = GetPosition eng e1)
      \<and> (SetPosition eng (GetPosition eng e1) e1 = Inr e2
           \<and> GetPosition eng e2 = GetPosition eng e1 \<longrightarrow>
           position (snd (position_setter eng (position (snd (position_setter eng v self)))
                            (snd (position_setter eng v self)))) =
           position (snd (position_setter eng v self))))
   \<and> (SetFocalPoint eng v (vtk self) = Inr f1 \<longrightarrow>
      focal_point_setter eng v self =
        (Inr (), self\<lparr>vtk := f1, self_focus := GetFocalPoint eng f1\<rparr>)
      \<and> focal_point (snd (focal_point_setter eng v self)) = GetFocalPoint eng f1
      \<and> (\<forall>e. focal_point ((snd (focal_point_setter eng v self))\<lparr>vtk := e\<rparr>) =
               GetFocalPoint eng f1)
      \<and> (SetFocalPoint eng (GetFocalPoint eng f1) f1 = Inr f2
           \<and> GetFocalPoint eng f2 = GetFocalPoint eng f1 \<longrightarrow>
           focal_point (snd (focal_point_setter eng
                               (focal_point (snd (focal_point_setter eng v self)))
                               (snd (focal_point_setter eng v self)))) =
           focal_point (snd (focal_point_setter eng v self))))"
  by (simp add: position_setter_accepted focal_point_setter_accepted position_def
        focal_point_def)

theorem position_setter_round_trip_witness:
  "position (snd (position_setter clamping_engine [- 1, 2, 3] fresh_camera)) = [0, 2, 3]
   \<and> position (snd (position_setter clamping_engine [0, 2, 3]
                      (snd (position_setter clamping_engine [- 1, 2, 3] fresh_camera)))) =
       [0, 2, 3]
   \<and> focal_point (snd (focal_point_setter clamping_engine [- 1, 2, 3] fresh_camera)) =
       [0, 2, 3]
   \<and> focal_point (snd (focal_point_setter clamping_engine [0, 2, 3]
                      (snd (focal_point_setter clamping_engine [- 1, 2, 3] fresh_camera)))) =
       [0, 2, 3]"
proof -
  let ?e = "fresh_engine\<lparr>Position := [0, 2, 3]\<rparr>"
  let ?f = "fresh_engine\<lparr>FocalPoint := [0, 2, 3]\<rparr>"
  have p1: "SetPosition clamping_engine [- 1, 2, 3] (vtk fresh_camera) = Inr ?e"
    by (simp add: clamping_SetPosition vtk_fresh_camera)
  have p2: "SetPosition clamping_engine (GetPosition clamping_engine ?e) ?e = Inr ?e
            \<and> GetPosition clamping_engine ?e = GetPosition clamping_engine ?e"
    by (simp add: clamping_SetPosition clamping_GetPosition)
  have f1: "SetFocalPoint clamping_engine [- 1, 2, 3] (vtk fresh_camera) = Inr ?f"
    by (simp add: clamping_SetFocalPoint vtk_fresh_camera)
  have f2: "SetFocalPoint clamping_engine (GetFocalPoint clamping_engine ?f) ?f = Inr ?f
            \<and> GetFocalPoint clamping_engine ?f = GetFocalPoint clamping_engine ?f"
    by (simp add: clamping_SetFocalPoint clamping_GetFocalPoint)
  note t = position_setter_round_trip
          [where eng = clamping_engine and v = "[- 1, 2, 3]" and self = fresh_camera
             and ?e1.0 = ?e and ?e2.0 = ?e and ?f1.0 = ?f and ?f2.0 = ?f]
  have "position (snd (position_setter clamping_engine [- 1, 2, 3] fresh_camera)) =
          GetPosition clamping_engine ?e"
    using t p1 by blast
  then have a:
    "position (snd (position_setter clamping_engine [- 1, 2, 3] fresh_camera)) = [0, 2, 3]"
    by (simp add: clamping_GetPosition)
  have "focal_point (snd (focal_point_setter clamping_engine [- 1, 2, 3] fresh_camera)) =
          GetFocalPoint clamping_engine ?f"
    using t f1 by blast
  then have b:
    "focal_point (snd (focal_point_setter clamping_engine [- 1, 2, 3] fresh_camera)) = [0, 2, 3]"
    by (simp add: clamping_GetFocalPoint)
  have c: "position (snd (position_setter clamping_engine
             (position (snd (position_setter clamping_engine [- 1, 2, 3] fresh_camera)))
             (snd (position_setter clamping_engine [- 1, 2, 3] fresh_camera)))) =
           position (snd (position_setter clamping_engine [- 1, 2, 3] fresh_camera))"
    using t p1 p2 by blast
  have d: "focal_point (snd (focal_point_setter clamping_engine
             (focal_point (snd (focal_point_setter clamping_engine [- 1, 2, 3] fresh_camera)))
             (snd (focal_point_setter clamping_engine [- 1, 2, 3] fresh_camera)))) =
           focal_point (snd (focal_point_setter clamping_engine [- 1, 2, 3] fresh_camera))"
    using t f1 f2 by blast
  from a b c d show ?thesis by simp
qed

section \<open>What a sequence of calls leaves in the cached fields\<close>

lemmas method_defs =
  position_setter_def focal_point_setter_def model_transform_matrix_setter_def
  thickness_setter_def parallel_scale_setter_def zoom_def up_def
  enable_parallel_projection_def disable_parallel_projection_def clipping_range_setter_def

lemma exec_self_position:
  "self_position (exec eng a self) =
     (case position_read_back eng (a, vtk self) of
        None \<Rightarrow> self_position self
      | Some w \<Rightarrow> w)"
  by (cases a) (simp_all add: method_defs Let_def split: sum.splits option.splits)

lemma exec_self_focus:
  "self_focus (exec eng a self) =
     (case focal_point_read_back eng (a, vtk self) of
        None \<Rightarrow> self_focus self
      | Some w \<Rightarrow> w)"
  by (cases a) (simp_all add: method_defs Let_def split: sum.splits option.splits)

lemma exec_flag:
  "self_is_parallel_projection (exec eng a self) =
     (case flag_set a of None \<Rightarrow> self_is_parallel_projection self | Some w \<Rightarrow> w)"
  by (cases a) (simp_all add: method_defs Let_def split: sum.splits option.splits)

lemma run_self_position:
  "self_position (run eng ops self) =
     last (self_position self #
           List.map_filter (position_read_back eng) (history eng ops self))"
proof (induction ops arbitrary: self)
  case Nil
  show ?case by simp
next
  case (Cons a ops)
  show ?case
    by (cases "position_read_back eng (a, vtk self)")
       (simp_all add: Cons.IH exec_self_position)
qed

lemma run_self_focus:
  "self_focus (run eng ops self) =
     last (self_focus self #
           List.map_filter (focal_point_read_back eng) (history eng ops self))"
proof (induction ops arbitrary: self)
  case Nil
  show ?case by simp
next
  case (Cons a ops)
  show ?case
    by (cases "focal_point_read_back eng (a, vtk self)")
       (simp_all add: Cons.IH exec_self_focus)
qed

lemma run_flag:
  "self_is_parallel_projection (run eng ops self) =
     last (self_is_parallel_projection self # List.map_filter flag_set ops)"
proof (induction ops arbitrary: self)
  case Nil
  show ?case by simp
next
  case (Cons a ops)
  show ?case
    by (cases "flag_set a") (simp_all add: Cons.IH exec_flag)
qed

text \<open>
  C3. After construction on the engine state \<open>e0\<close> and any sequence of calls (property
  assignments, method calls, and calls of inherited engine methods), the cached position
  is the last value the descriptor read back from the engine: the one read at
  construction, or the one read right after the most recent position setter that the
  engine took; likewise the cached focal point. The getters \<open>position\<close> and
  \<open>focal_point\<close> return the cached fields and do not depend on the engine state.
\<close>

theorem cached_vectors_invariant:
  "self_position (run eng ops (Camera_init eng e0)) =
     last (GetPosition eng e0 #
           List.map_filter (position_read_back eng) (history eng ops (Camera_init eng e0)))
   \<and> self_focus (run eng ops (Camera_init eng e0)) =
     last (GetFocalPoint eng e0 #
           List.map_filter (focal_point_read_back eng) (history eng ops (Camera_init eng e0)))
   \<and> position self = self_position self
   \<and> focal_point self = self_focus self
   \<and> position (self\<lparr>vtk := e\<rparr>) = position self
   \<and> focal_point (self\<lparr>vtk := e\<rparr>) = focal_point self"
  by (simp add: run_self_position run_self_focus position_def focal_point_def Camera_init_def)

text \<open>
  An instance: the position is set, the engine is then moved behind the descriptor's
  back, and a later assignment is refused by the engine. The cache still holds the value
  read back after the first assignment, while the engine holds another.
\<close>

theorem cached_vectors_invariant_witness:
  "self_position (run reference_engine
       [Assign_position [1, 2, 3], Call_zoom 2,
        Inherited (\<lambda>e. e\<lparr>Position := [9, 9, 9]\<rparr>), Assign_position [4, 5]]
       (Camera_init reference_engine fresh_engine)) = [1, 2, 3]
   \<and> GetPosition reference_engine (vtk (run reference_engine
       [Assign_position [1, 2, 3], Call_zoom 2,
        Inherited (\<lambda>e. e\<lparr>Position := [9, 9, 9]\<rparr>), Assign_position [4, 5]]
       (Camera_init reference_engine fresh_engine))) = [9, 9, 9]
   \<and> self_focus (run reference_engine
       [Assign_position [1, 2, 3], Call_zoom 2,
        Inherited (\<lambda>e. e\<lparr>Position := [9, 9, 9]\<rparr>), Assign_position [4, 5]]
       (Camera_init reference_engine fresh_engine)) = [0, 0, 0]"
  using cached_vectors_invariant
          [where eng = reference_engine and e0 = fresh_engine
             and ops = "[Assign_position [1, 2, 3], Call_zoom 2,
                         Inherited (\<lambda>e. e\<lparr>Position := [9, 9, 9]\<rparr>), Assign_position [4, 5]]"]
  by (simp add: position_setter_def zoom_def reference_engine_def set_vector_def
        fresh_engine_def Camera_init_def)

section \<open>The parallel-projection flag\<close>

text \<open>
  C4. \<open>is_parallel_projection\<close> returns the flag handed to the most recent
  enable/disable call of any sequence of calls (\<open>False\<close> when there was none) and does
  not depend on the engine state; after \<open>enable_parallel_projection()\<close> it is \<open>True\<close>,
  after \<open>disable_parallel_projection()\<close> it is \<open>False\<close>; disabling is enabling with
  \<open>False\<close>; and assigning to the property raises \<open>AttributeError\<close> and changes nothing.
\<close>

theorem is_parallel_projection_last_set:
  "is_parallel_projection (run eng ops (Camera_init eng e0)) =
     last (PyBool False # List.map_filter flag_set ops)
   \<and> is_parallel_projection (snd (enable_parallel_projection eng Omitted self)) = PyBool True
   \<and> is_parallel_projection (snd (disable_parallel_projection eng self)) = PyBool False
   \<and> disable_parallel_projection eng self =
       enable_parallel_projection eng (Given (PyBool False)) self
   \<and> is_parallel_projection (self\<lparr>vtk := e\<rparr>) = is_parallel_projection self
   \<and> is_parallel_projection_assign x self = (Inl AttributeError, self)"
  by (simp add: run_flag is_parallel_projection_def Camera_init_def
        enable_parallel_projection_def disable_parallel_projection_def
        is_parallel_projection_assign_def Let_def split: sum.splits)

theorem is_parallel_projection_last_set_witness:
  "is_parallel_projection (run reference_engine
       [Call_enable_parallel_projection Omitted, Assign_thickness 5,
        Call_disable_parallel_projection, Call_enable_parallel_projection Omitted,
        Inherited (\<lambda>e. e\<lparr>ParallelProjection := False\<rparr>)]
       (Camera_init reference_engine fresh_engine)) = PyBool True
   \<and> is_parallel_projection (run reference_engine
       [Call_enable_parallel_projection Omitted, Call_zoom 2, Call_disable_parallel_projection]
       (Camera_init reference_engine fresh_engine)) = PyBool False
   \<and> is_parallel_projection (run reference_engine [Call_zoom 2]
       (Camera_init reference_engine fresh_engine)) = PyBool False"
  using is_parallel_projection_last_set
          [where eng = reference_engine and e0 = fresh_engine
             and ops = "[Call_enable_parallel_projection Omitted, Assign_thickness 5,
                         Call_disable_parallel_projection, Call_enable_parallel_projection Omitted,
                         Inherited (\<lambda>e. e\<lparr>ParallelProjection := False\<rparr>)]"]
        is_parallel_projection_last_set
          [where eng = reference_engine and e0 = fresh_engine
             and ops = "[Call_enable_parallel_projection Omitted, Call_zoom 2,
                         Call_disable_parallel_projection]"]
        is_parallel_projection_last_set
          [where eng = reference_engine and e0 = fresh_engine and ops = "[Call_zoom 2]"]
  by simp

text \<open>
  C9. \<open>enable_parallel_projection\<close> stores the very value it is given: after a call with
  any value f, \<open>is_parallel_projection\<close> returns f. With \<open>None\<close> it returns \<open>None\<close>, which
  is not a boolean. The engine is handed the same f (and the stored value stays even when
  the engine raises on it); with the argument left out the value is \<open>True\<close>.
\<close>

theorem enable_parallel_projection_stores_argument:
  "is_parallel_projection (snd (enable_parallel_projection eng (Given f) self)) = f
   \<and> is_parallel_projection (snd (enable_parallel_projection eng (Given PyNone) self)) = PyNone
   \<and> (\<forall>b. PyNone \<noteq> PyBool b)
   \<and> vtk (snd (enable_parallel_projection eng (Given f) self)) =
       (case SetParallelProjection eng f (vtk self) of Inl err \<Rightarrow> vtk self | Inr e1 \<Rightarrow> e1)
   \<and> is_parallel_projection (snd (enable_parallel_projection eng Omitted self)) = PyBool True"
  by (simp add: is_parallel_projection_def enable_parallel_projection_def Let_def
        split: sum.splits)

theorem enable_parallel_projection_stores_argument_witness:
  "is_parallel_projection
     (snd (enable_parallel_projection reference_engine (Given (PyStr ''yes'')) fresh_camera)) =
     PyStr ''yes''
   \<and> is_parallel_projection
     (snd (enable_parallel_projection reference_engine (Given PyNone) fresh_camera)) = PyNone
   \<and> is_parallel_projection
     (snd (enable_parallel_projection reference_engine (Given (PyInt 1)) fresh_camera)) = PyInt 1"
  using enable_parallel_projection_stores_argument
          [where eng = reference_engine and f = "PyStr ''yes''" and self = fresh_camera]
        enable_parallel_projection_stores_argument
          [where eng = reference_engine and f = "PyInt 1" and self = fresh_camera]
  by simp

section \<open>The up accessor\<close>

text \<open>
  C5, as amended. \<open>up\<close> is dual-mode by whether its argument is \<open>None\<close>: called with no
  argument, or with \<open>None\<close>, it returns the engine's current view-up vector and changes
  nothing; called with a vector v that the engine takes, it hands v to \<open>SetViewUp\<close>,
  returns nothing and changes nothing but the engine part, and a following call with no
  argument returns the engine's view-up vector of the state that \<open>SetViewUp\<close> produced
  (the engine's own rendering of v); when the engine refuses v, the exception passes
  through and nothing changes.
\<close>

theorem up_dual_mode:
  "up eng Omitted self = (Inr (Some (GetViewUp eng (vtk self))), self)
   \<and> up eng (Given None) self = (Inr (Some (GetViewUp eng (vtk self))), self)
   \<and> (SetViewUp eng v (vtk self) = Inr e1 \<longrightarrow>
        up eng (Given (Some v)) self = (Inr None, self\<lparr>vtk := e1\<rparr>)
        \<and> up eng Omitted (snd (up eng (Given (Some v)) self)) =
            (Inr (Some (GetViewUp eng e1)), self\<lparr>vtk := e1\<rparr>))
   \<and> (SetViewUp eng w (vtk self) = Inl err \<longrightarrow>
        up eng (Given (Some w)) self = (Inl err, self))"
  by (simp add: up_def)

theorem up_dual_mode_witness:
  "up normalising_engine Omitted fresh_camera = (Inr (Some [0, 1, 0]), fresh_camera)
   \<and> up normalising_engine (Given (Some [0, 0, 2])) fresh_camera =
       (Inr None, fresh_camera\<lparr>vtk := fresh_engine\<lparr>ViewUp := [0, 0, 1]\<rparr>\<rparr>)
   \<and> up normalising_engine Omitted
         (snd (up normalising_engine (Given (Some [0, 0, 2])) fresh_camera)) =
       (Inr (Some [0, 0, 1]), fresh_camera\<lparr>vtk := fresh_engine\<lparr>ViewUp := [0, 0, 1]\<rparr>\<rparr>)
   \<and> up normalising_engine (Given (Some [1, 2])) fresh_camera =
       (Inl (EngineError ''TypeError''), fresh_camera)"
proof -
  let ?e = "fresh_engine\<lparr>ViewUp := [0, 0, 1]\<rparr>"
  have s: "SetViewUp normalising_engine [0, 0, 2] (vtk fresh_camera) = Inr ?e"
    by (simp add: normalising_ViewUp normalize_002 vtk_fresh_camera)
  have r: "SetViewUp normalising_engine [1, 2] (vtk fresh_camera) =
             Inl (EngineError ''TypeError'')"
    by (simp add: normalising_ViewUp)
  have g: "GetViewUp normalising_engine ?e = [0, 0, 1]"
    by (simp add: normalising_ViewUp)
  have d: "GetViewUp normalising_engine (vtk fresh_camera) = [0, 1, 0]"
    by (simp add: normalising_ViewUp vtk_fresh_camera fresh_engine_def)
  note t = up_dual_mode [where eng = normalising_engine and self = fresh_camera
                           and v = "[0, 0, 2]" and ?e1.0 = ?e and w = "[1, 2]"
                           and err = "EngineError ''TypeError''"]
  from t have "up normalising_engine Omitted fresh_camera =
       (Inr (Some (GetViewUp normalising_engine (vtk fresh_camera))), fresh_camera)"
    by blast
  with d have a:
    "up normalising_engine Omitted fresh_camera = (Inr (Some [0, 1, 0]), fresh_camera)"
    by simp
  from t s have b: "up normalising_engine (Given (Some [0, 0, 2])) fresh_camera =
       (Inr None, fresh_camera\<lparr>vtk := ?e\<rparr>)"
    by blast
  from t s have "up normalising_engine Omitted
         (snd (up normalising_engine (Given (Some [0, 0, 2])) fresh_camera)) =
       (Inr (Some (GetViewUp normalising_engine ?e)), fresh_camera\<lparr>vtk := ?e\<rparr>)"
    by blast
  with g have c: "up normalising_engine Omitted
         (snd (up normalising_engine (Given (Some [0, 0, 2])) fresh_camera)) =
       (Inr (Some [0, 0, 1]), fresh_camera\<lparr>vtk := ?e\<rparr>)"
    by simp
  from t r have e: "up normalising_engine (Given (Some [1, 2])) fresh_camera =
       (Inl (EngineError ''TypeError''), fresh_camera)"
    by blast
  from a b c e show ?thesis by blast
qed

text \<open>
  C5 as stated fails twice. The call \<open>up(None)\<close> has an argument, yet it returns the
  view-up vector (here the default of a fresh engine) instead of nothing, and sets
  nothing. And on an engine that normalises, \<open>up((0, 0, 2))\<close> followed by \<open>up()\<close>
  returns (0, 0, 1), the engine's rendering, not the vector that was passed.
\<close>

theorem up_as_stated_counterexample:
  "up normalising_engine (Given None) fresh_camera = (Inr (Some [0, 1, 0]), fresh_camera)
   \<and> fst (up normalising_engine (Given None) fresh_camera) \<noteq> Inr None
   \<and> fst (up normalising_engine (Given (Some [0, 0, 2])) fresh_camera) = Inr None
   \<and> fst (up normalising_engine Omitted
            (snd (up normalising_engine (Given (Some [0, 0, 2])) fresh_camera))) =
       Inr (Some [0, 0, 1])
   \<and> fst (up normalising_engine Omitted
            (snd (up normalising_engine (Given (Some [0, 0, 2])) fresh_camera))) \<noteq>
       Inr (Some [0, 0, 2])"
  by (simp add: up_def normalising_ViewUp normalize_002 vtk_fresh_camera fresh_engine_def)

section \<open>The model transform matrix\<close>

lemma reshape_ravel:
  assumes "length m = 4" and "\<forall>r \<in> set m. length r = 4"
  shows "reshape_4x4 (ravel m) = m"
proof -
  from assms(1) obtain a b c d where m: "m = [a, b, c, d]"
    by (auto simp: length_Suc_conv numeral_eq_Suc)
  with assms(2) show ?thesis
    by (simp add: reshape_4x4_def ravel_def)
qed

lemma length_ravel:
  assumes "length m = 4" and "\<forall>r \<in> set m. length r = 4"
  shows "length (ravel m) = 16"
proof -
  from assms(1) obtain a b c d where m: "m = [a, b, c, d]"
    by (auto simp: length_Suc_conv numeral_eq_Suc)
  with assms(2) show ?thesis
    by (simp add: ravel_def)
qed

lemma getter_reads_engine_matrix:
  "length (elements (GetModelTransformMatrix eng (vtk self))) = 16 \<Longrightarrow>
     model_transform_matrix eng junk self =
       reshape_4x4 (elements (GetModelTransformMatrix eng (vtk self)))"
  by (simp add: model_transform_matrix_def DeepCopy_to_def np_empty_4x4_def Let_def)

lemma setter_forwards_matrix:
  "length (ravel m) = 16 \<Longrightarrow>
   SetModelTransformMatrix eng (VtkMatrix4x4 (ravel m)) (vtk self) = Inr e1 \<Longrightarrow>
     model_transform_matrix_setter eng m self = (Inr (), self\<lparr>vtk := e1\<rparr>)"
  by (simp add: model_transform_matrix_setter_def DeepCopy_def)

lemma identity_shape: "length identity_4x4 = 4 \<and> (\<forall>r \<in> set identity_4x4. length r = 4)"
  by (simp add: identity_4x4_def)

text \<open>
  C6. Writing the 4x4 identity through the setter and reading the property returns the
  identity, for an engine that takes the matrix and hands back the one it was given, and
  whatever the fresh array of the getter held before it was filled. More generally the
  setter, on any 4x4 array m, hands the engine a native matrix with the sixteen entries
  of m in row-major order and changes nothing but the engine part of the object (it
  caches nothing), and the getter returns the sixteen entries of the engine's matrix as
  four rows of four; so the round trip returns m for any 4x4 array m.
\<close>

theorem model_transform_matrix_round_trip:
  "(SetModelTransformMatrix eng (VtkMatrix4x4 (ravel identity_4x4)) (vtk self) = Inr e1
      \<and> GetModelTransformMatrix eng e1 = VtkMatrix4x4 (ravel identity_4x4) \<longrightarrow>
      model_transform_matrix eng junk
        (snd (model_transform_matrix_setter eng identity_4x4 self)) = identity_4x4)
   \<and> (length m = 4 \<and> (\<forall>r \<in> set m. length r = 4)
      \<and> SetModelTransformMatrix eng (VtkMatrix4x4 (ravel m)) (vtk self) = Inr e2 \<longrightarrow>
      model_transform_matrix_setter eng m self = (Inr (), self\<lparr>vtk := e2\<rparr>)
      \<and> (GetModelTransformMatrix eng e2 = VtkMatrix4x4 (ravel m) \<longrightarrow>
           model_transform_matrix eng junk (snd (model_transform_matrix_setter eng m self)) = m))
   \<and> (length (elements (GetModelTransformMatrix eng (vtk self))) = 16 \<longrightarrow>
      model_transform_matrix eng junk self =
        reshape_4x4 (elements (GetModelTransformMatrix eng (vtk self))))"
proof (intro conjI impI)
  assume h: "SetModelTransformMatrix eng (VtkMatrix4x4 (ravel identity_4x4)) (vtk self) = Inr e1
      \<and> GetModelTransformMatrix eng e1 = VtkMatrix4x4 (ravel identity_4x4)"
  have l: "length (ravel identity_4x4) = 16"
    using identity_shape by (simp add: length_ravel)
  from h l have
    "model_transform_matrix_setter eng identity_4x4 self = (Inr (), self\<lparr>vtk := e1\<rparr>)"
    by (simp add: setter_forwards_matrix)
  with h l show "model_transform_matrix eng junk
      (snd (model_transform_matrix_setter eng identity_4x4 self)) = identity_4x4"
    using identity_shape by (simp add: getter_reads_engine_matrix reshape_ravel)
next
  assume h: "length m = 4 \<and> (\<forall>r \<in> set m. length r = 4)
      \<and> SetModelTransformMatrix eng (VtkMatrix4x4 (ravel m)) (vtk self) = Inr e2"
  then have l: "length (ravel m) = 16" by (simp add: length_ravel)
  with h show s: "model_transform_matrix_setter eng m self = (Inr (), self\<lparr>vtk := e2\<rparr>)"
    by (simp add: setter_forwards_matrix)
  assume g: "GetModelTransformMatrix eng e2 = VtkMatrix4x4 (ravel m)"
  with h l s
  show "model_transform_matrix eng junk (snd (model_transform_matrix_setter eng m self)) = m"
    by (simp add: getter_reads_engine_matrix reshape_ravel)
next
  assume "length (elements (GetModelTransformMatrix eng (vtk self))) = 16"
  then show "model_transform_matrix eng junk self =
        reshape_4x4 (elements (GetModelTransformMatrix eng (vtk self)))"
    by (rule getter_reads_engine_matrix)
qed

theorem model_transform_matrix_round_trip_witness:
  "model_transform_matrix reference_engine (\<lambda>i. 42)
     (snd (model_transform_matrix_setter reference_engine identity_4x4 fresh_camera)) =
     [[1, 0, 0, 0], [0, 1, 0, 0], [0, 0, 1, 0], [0, 0, 0, 1]]
   \<and> model_transform_matrix reference_engine (\<lambda>i. 42)
     (snd (model_transform_matrix_setter reference_engine
             [[1, 0, 0, 5], [0, 1, 0, 6], [0, 0, 1, 7], [0, 0, 0, 1]] fresh_camera)) =
     [[1, 0, 0, 5], [0, 1, 0, 6], [0, 0, 1, 7], [0, 0, 0, 1]]
   \<and> model_transform_matrix reference_engine (\<lambda>i. 42) fresh_camera =
     [[1, 0, 0, 0], [0, 1, 0, 0], [0, 0, 1, 0], [0, 0, 0, 1]]"
proof -
  let ?m = "[[1, 0, 0, 5], [0, 1, 0, 6], [0, 0, 1, 7], [0, 0, 0, 1 :: real]]"
  let ?e1 = "fresh_engine\<lparr>ModelTransformMatrix := VtkMatrix4x4 (ravel identity_4x4)\<rparr>"
  let ?e2 = "fresh_engine\<lparr>ModelTransformMatrix := VtkMatrix4x4 (ravel ?m)\<rparr>"
  have h1: "SetModelTransformMatrix reference_engine (VtkMatrix4x4 (ravel identity_4x4))
              (vtk fresh_camera) = Inr ?e1
            \<and> GetModelTransformMatrix reference_engine ?e1 = VtkMatrix4x4 (ravel identity_4x4)"
    by (simp add: reference_matrix vtk_fresh_camera)
  have h2: "length ?m = 4 \<and> (\<forall>r \<in> set ?m. length r = 4)
            \<and> SetModelTransformMatrix reference_engine (VtkMatrix4x4 (ravel ?m))
                (vtk fresh_camera) = Inr ?e2"
    by (simp add: reference_matrix vtk_fresh_camera)
  have h3: "GetModelTransformMatrix reference_engine ?e2 = VtkMatrix4x4 (ravel ?m)"
    by (simp add: reference_matrix)
  have h4: "length (elements (GetModelTransformMatrix reference_engine (vtk fresh_camera))) = 16"
    by (simp add: reference_matrix vtk_fresh_camera fresh_engine_def vtkMatrix4x4_new_def
          ravel_def identity_4x4_def)
  note t = model_transform_matrix_round_trip
             [where eng = reference_engine and self = fresh_camera and junk = "\<lambda>i. 42"
                and m = ?m and ?e1.0 = ?e1 and ?e2.0 = ?e2]
  from t h1 have a: "model_transform_matrix reference_engine (\<lambda>i. 42)
     (snd (model_transform_matrix_setter reference_engine identity_4x4 fresh_camera)) =
     identity_4x4"
    by blast
  from t h2 h3 have b: "model_transform_matrix reference_engine (\<lambda>i. 42)
     (snd (model_transform_matrix_setter reference_engine ?m fresh_camera)) = ?m"
    by blast
  from t h4 have "model_transform_matrix reference_engine (\<lambda>i. 42) fresh_camera =
     reshape_4x4 (elements (GetModelTransformMatrix reference_engine (vtk fresh_camera)))"
    by blast
  then have c: "model_transform_matrix reference_engine (\<lambda>i. 42) fresh_camera = identity_4x4"
    by (simp add: reference_matrix vtk_fresh_camera fresh_engine_def vtkMatrix4x4_new_def
          reshape_ravel identity_shape)
  from a b c show ?thesis by (simp add: identity_4x4_def)
qed

section \<open>The distance\<close>

lemma sqrt_14_approx: "\<bar>sqrt 14 - 3742 / 1000\<bar> < (5 / 10000 :: real)"
proof -
  have lo: "(37415 / 10000 :: real) < sqrt 14"
    by (rule real_less_rsqrt) (simp add: power2_eq_square)
  have hi: "sqrt 14 < (37425 / 10000 :: real)"
    by (rule real_less_lsqrt) (simp_all add: power2_eq_square)
  from lo hi show ?thesis by linarith
qed

lemma euclidean_123: "euclidean_distance [1, 2, 3] [0, 0, 0] = sqrt 14"
  by (simp add: euclidean_distance_def)

text \<open>
  C7. Construct the descriptor, assign (1, 2, 3) to \<open>position\<close> and (0, 0, 0) to
  \<open>focal_point\<close>, read \<open>distance\<close>: for an engine that takes both vectors, keeps them as
  given and reports the Euclidean distance between its position and its focal point, the
  value read is the square root of 1*1 + 2*2 + 3*3, which is 3.742 to three decimals (numbers taken as
  reals). \<open>distance\<close> is whatever the engine's \<open>GetDistance\<close> returns on the current engine
  state, and assigning to it raises \<open>AttributeError\<close> and changes nothing.
\<close>

theorem distance_example:
  "(SetPosition eng [1, 2, 3] e0 = Inr e1
      \<and> SetFocalPoint eng [0, 0, 0] e1 = Inr e2
      \<and> GetPosition eng e2 = [1, 2, 3]
      \<and> GetFocalPoint eng e2 = [0, 0, 0]
      \<and> GetDistance eng e2 = euclidean_distance (GetPosition eng e2) (GetFocalPoint eng e2) \<longrightarrow>
      distance eng (snd (focal_point_setter eng [0, 0, 0]
                      (snd (position_setter eng [1, 2, 3] (Camera_init eng e0))))) =
        sqrt (1\<^sup>2 + 2\<^sup>2 + 3\<^sup>2)
      \<and> \<bar>distance eng (snd (focal_point_setter eng [0, 0, 0]
                      (snd (position_setter eng [1, 2, 3] (Camera_init eng e0))))) - 3742 / 1000\<bar>
          < 5 / 10000)
   \<and> distance eng self = GetDistance eng (vtk self)
   \<and> distance_assign x self = (Inl AttributeError, self)"
proof (intro conjI impI)
  assume h: "SetPosition eng [1, 2, 3] e0 = Inr e1
      \<and> SetFocalPoint eng [0, 0, 0] e1 = Inr e2
      \<and> GetPosition eng e2 = [1, 2, 3]
      \<and> GetFocalPoint eng e2 = [0, 0, 0]
      \<and> GetDistance eng e2 = euclidean_distance (GetPosition eng e2) (GetFocalPoint eng e2)"
  let ?c = "snd (focal_point_setter eng [0, 0, 0]
                      (snd (position_setter eng [1, 2, 3] (Camera_init eng e0))))"
  from h have "vtk ?c = e2"
    by (simp add: position_setter_def focal_point_setter_def Camera_init_def)
  with h have d: "distance eng ?c = sqrt 14"
    by (simp add: distance_def euclidean_123)
  then show "distance eng ?c = sqrt (1\<^sup>2 + 2\<^sup>2 + 3\<^sup>2)" by simp
  from d show "\<bar>distance eng ?c - 3742 / 1000\<bar> < 5 / 10000"
    using sqrt_14_approx by simp
next
  show "distance eng self = GetDistance eng (vtk self)" by (simp add: distance_def)
next
  show "distance_assign x self = (Inl AttributeError, self)" by (simp add: distance_assign_def)
qed

theorem distance_example_witness:
  "distance reference_engine
     (snd (focal_point_setter reference_engine [0, 0, 0]
        (snd (position_setter reference_engine [1, 2, 3]
           (Camera_init reference_engine fresh_engine))))) = sqrt 14
   \<and> \<bar>distance reference_engine
     (snd (focal_point_setter reference_engine [0, 0, 0]
        (snd (position_setter reference_engine [1, 2, 3]
           (Camera_init reference_engine fresh_engine))))) - 3742 / 1000\<bar> < 5 / 10000"
proof -
  let ?e1 = "fresh_engine\<lparr>Position := [1, 2, 3]\<rparr>"
  let ?e2 = "fresh_engine\<lparr>Position := [1, 2, 3], FocalPoint := [0, 0, 0]\<rparr>"
  have h: "SetPosition reference_engine [1, 2, 3] fresh_engine = Inr ?e1
      \<and> SetFocalPoint reference_engine [0, 0, 0] ?e1 = Inr ?e2
      \<and> GetPosition reference_engine ?e2 = [1, 2, 3]
      \<and> GetFocalPoint reference_engine ?e2 = [0, 0, 0]
      \<and> GetDistance reference_engine ?e2 =
          euclidean_distance (GetPosition reference_engine ?e2)
            (GetFocalPoint reference_engine ?e2)"
    by (simp add: reference_vectors)
  note t = distance_example [where eng = reference_engine and ?e0.0 = fresh_engine
                               and ?e1.0 = ?e1 and ?e2.0 = ?e2]
  from t h have "distance reference_engine
     (snd (focal_point_setter reference_engine [0, 0, 0]
        (snd (position_setter reference_engine [1, 2, 3]
           (Camera_init reference_engine fresh_engine))))) = sqrt (1\<^sup>2 + 2\<^sup>2 + 3\<^sup>2)"
    and "\<bar>distance reference_engine
     (snd (focal_point_setter reference_engine [0, 0, 0]
        (snd (position_setter reference_engine [1, 2, 3]
           (Camera_init reference_engine fresh_engine))))) - 3742 / 1000\<bar> < 5 / 10000"
    by blast+
  then show ?thesis by simp
qed

section \<open>Teardown\<close>

text \<open>
  C8. When the engine's \<open>RemoveAllObservers\<close> returns, \<open>__del__\<close> leaves the engine in
  the state that call produced and \<open>parent\<close> set to \<open>None\<close>, and changes nothing else; so
  whatever registrations the engine holds (\<open>registrations\<close> is any reading of them off the
  engine state), none is left when \<open>RemoveAllObservers\<close> leaves none.
\<close>

theorem Camera_del_releases:
  "RemoveAllObservers eng (vtk self) = Inr e1 \<longrightarrow>
     Camera_del eng self = (Inr (), self\<lparr>vtk := e1, self_parent := NoneRef\<rparr>)
     \<and> self_parent (snd (Camera_del eng self)) = NoneRef
     \<and> vtk (snd (Camera_del eng self)) = e1
     \<and> (registrations e1 = [] \<longrightarrow> registrations (vtk (snd (Camera_del eng self))) = [])"
  by (simp add: Camera_del_def)

theorem Camera_del_releases_witness:
  "Observers (vtk owned_camera) = [7, 9]
   \<and> self_parent owned_camera = ObjRef 1
   \<and> Camera_del reference_engine owned_camera =
       (Inr (), fresh_camera\<lparr>self_parent := NoneRef\<rparr>)
   \<and> self_parent (snd (Camera_del reference_engine owned_camera)) = NoneRef
   \<and> Observers (vtk (snd (Camera_del reference_engine owned_camera))) = []"
proof -
  have r: "RemoveAllObservers reference_engine (vtk owned_camera) = Inr fresh_engine"
    by (simp add: reference_RemoveAllObservers owned_camera_def fresh_engine_def)
  have o: "Observers fresh_engine = []"
    by (simp add: fresh_engine_def)
  note t = Camera_del_releases [where eng = reference_engine and self = owned_camera
                                  and ?e1.0 = fresh_engine and registrations = Observers]
  from t r o have a: "Camera_del reference_engine owned_camera =
       (Inr (), owned_camera\<lparr>vtk := fresh_engine, self_parent := NoneRef\<rparr>)"
    and b: "self_parent (snd (Camera_del reference_engine owned_camera)) = NoneRef"
    and c: "Observers (vtk (snd (Camera_del reference_engine owned_camera))) = []"
    by blast+
  have e: "owned_camera\<lparr>vtk := fresh_engine, self_parent := NoneRef\<rparr> =
           fresh_camera\<lparr>self_parent := NoneRef\<rparr>"
    by (simp add: owned_camera_def fresh_camera_def Camera_init_def)
  have f: "Observers (vtk owned_camera) = [7, 9] \<and> self_parent owned_camera = ObjRef 1"
    by (simp add: owned_camera_def)
  from a e have "Camera_del reference_engine owned_camera =
       (Inr (), fresh_camera\<lparr>self_parent := NoneRef\<rparr>)"
    by (rule trans [OF _ arg_cong])
  with b c f show ?thesis by blast
qed

end
